theory Spec2Isabelle
  imports Complex_Main
begin

section \<open>Data model of the dashboard (src/main.py)\<close>

text \<open>
  The callback \<open>update_dashboard\<close> works on the data frame returned by
  \<open>get_todays_data()\<close>. That function lives in a module that is not part of the
  sources at hand, so the frame is an input of the model. A frame is the list of its rows,
  in row order. A row has the column \<open>timestamp\<close> and the four columns named by the keys
  of \<open>PARAMETERS\<close>.

  An instant is a pandas \<open>Timestamp\<close> without time zone: a number of nanoseconds since the
  epoch. A cell is a float; \<open>None\<close> is NaN, the missing value of pandas. A present value is
  taken as the real number it denotes: the model computes sums and quotients exactly and
  says nothing about the rounding error of binary floating point.
\<close>

type_synonym instant = int
type_synonym cell = "real option"

record reading =
  timestamp :: instant
  pH :: cell
  TDS :: cell
  Depth :: cell
  FlowInd :: cell

type_synonym frame = "reading list"

definition ns_per_hour :: int where
  "ns_per_hour = 3600000000000"

definition ns_per_day :: int where
  "ns_per_day = 24 * ns_per_hour"

record param_config =
  name :: string
  unit :: string
  color :: string
  value_range :: "int \<times> int"

text \<open>The dictionaries of lines 18-40, as association lists in the order of the source.\<close>

definition PARAMETERS :: "(string \<times> param_config) list" where
  "PARAMETERS =
    [(''pH'', \<lparr>name = ''pH Level'', unit = '''', color = ''#1f77b4'', value_range = (6, 9)\<rparr>),
     (''TDS'', \<lparr>name = ''TDS'', unit = ''ppm'', color = ''#ff7f0e'', value_range = (0, 500)\<rparr>),
     (''Depth'', \<lparr>name = ''Water Level'', unit = ''m'', color = ''#2ca02c'', value_range = (0, 10)\<rparr>),
     (''FlowInd'', \<lparr>name = ''Flow Rate'', unit = ''kL/10min'', color = ''#d62728'',
        value_range = (0, 100)\<rparr>)]"

definition TIME_RANGES :: "(string \<times> string) list" where
  "TIME_RANGES =
    [(''1H'', ''1 Hour''), (''6H'', ''6 Hours''), (''12H'', ''12 Hours''),
     (''1D'', ''1 Day''), (''1W'', ''1 Week''), (''Custom'', ''Custom Range'')]"

text \<open>
  \<open>AGGREGATIONS\<close> maps the labels of the aggregation dropdown to pandas offset aliases.
  The model represents an alias by the bucket width it denotes, in nanoseconds; the
  table below gives the widths of the five aliases the dropdown offers.
\<close>

definition AGGREGATIONS :: "(string \<times> int) list" where
  "AGGREGATIONS =
    [(''10 Min'', 600000000000), (''30 Min'', 1800000000000), (''1 Hour'', 3600000000000),
     (''4 Hour'', 14400000000000), (''Daily'', 86400000000000)]"

text \<open>Column access by name, \<open>row[param]\<close>, for the keys of \<open>PARAMETERS\<close>.\<close>

definition column :: "string \<Rightarrow> reading \<Rightarrow> cell" where
  "column param r =
    (if param = ''pH'' then pH r
     else if param = ''TDS'' then TDS r
     else if param = ''Depth'' then Depth r
     else FlowInd r)"

section \<open>Time range filtering (lines 260-271)\<close>

definition hours_delta :: "(string \<times> int) list" where
  "hours_delta = [(''1H'', 1), (''6H'', 6), (''12H'', 12), (''1D'', 24), (''1W'', 168)]"

text \<open>
  The bounds of the date picker are strings or \<open>None\<close>. A bound is modelled by the instant
  \<open>pd.to_datetime\<close> reads from it; \<open>None\<close> stands for the values Python takes as false
  (\<open>None\<close> and the empty string).
\<close>

definition window_bounds ::
  "string \<Rightarrow> instant option \<Rightarrow> instant option \<Rightarrow> frame \<Rightarrow> instant \<times> instant" where
  "window_bounds time_range custom_start custom_end df =
    (let end_time = Max (set (map timestamp df)) in
     if time_range = ''Custom'' \<and> custom_start \<noteq> None \<and> custom_end \<noteq> None
     then (the custom_start, the custom_end)
     else (end_time -
             (case map_of hours_delta time_range of None \<Rightarrow> 6 | Some h \<Rightarrow> h) * ns_per_hour,
           end_time))"

text \<open>\<open>Series.between(left, right)\<close> with its default, both bounds inclusive.\<close>

definition between :: "instant \<Rightarrow> instant \<Rightarrow> reading \<Rightarrow> bool" where
  "between start_time end_time r \<longleftrightarrow> start_time \<le> timestamp r \<and> timestamp r \<le> end_time"

definition df_filtered ::
  "string \<Rightarrow> instant option \<Rightarrow> instant option \<Rightarrow> frame \<Rightarrow> frame" where
  "df_filtered time_range custom_start custom_end df =
    (case window_bounds time_range custom_start custom_end df of
       (start_time, end_time) \<Rightarrow> filter (between start_time end_time) df)"

section \<open>Aggregation (lines 274-276)\<close>

text \<open>
  \<open>df.resample(freq, on='timestamp').agg({param: 'mean'}).reset_index()\<close> with the
  defaults of pandas for a fixed-width frequency: bins closed and labelled on the left,
  anchored at midnight of the day of the earliest row (\<open>origin='start_day'\<close>). There is one
  bin for every step of \<open>freq\<close> from the bin of the earliest row to the bin of the latest
  row. The mean of a column over a bin skips NaN and is NaN when nothing is left. An
  empty frame gives an empty frame.
\<close>

fun present :: "cell list \<Rightarrow> real list" where
  "present [] = []"
| "present (None # cs) = present cs"
| "present (Some v # cs) = v # present cs"

definition mean :: "cell list \<Rightarrow> cell" where
  "mean cs =
    (let vs = present cs in
     if vs = [] then None else Some (sum_list vs / real (length vs)))"

definition normalize :: "instant \<Rightarrow> instant" where
  "normalize t = t - t mod ns_per_day"

definition bin_floor :: "int \<Rightarrow> instant \<Rightarrow> instant \<Rightarrow> instant" where
  "bin_floor freq origin t = t - (t - origin) mod freq"

definition in_bin :: "int \<Rightarrow> instant \<Rightarrow> reading \<Rightarrow> bool" where
  "in_bin freq b r \<longleftrightarrow> b \<le> timestamp r \<and> timestamp r < b + freq"

definition bin_row :: "int \<Rightarrow> frame \<Rightarrow> instant \<Rightarrow> reading" where
  "bin_row freq df b =
    (let rs = filter (in_bin freq b) df in
     \<lparr>timestamp = b, pH = mean (map pH rs), TDS = mean (map TDS rs),
      Depth = mean (map Depth rs), FlowInd = mean (map FlowInd rs)\<rparr>)"

definition origin_of :: "frame \<Rightarrow> instant" where
  "origin_of df = normalize (Min (set (map timestamp df)))"

definition resample_mean :: "int \<Rightarrow> frame \<Rightarrow> frame" where
  "resample_mean freq df =
    (if df = [] then []
     else
       let first = Min (set (map timestamp df));
           last = Max (set (map timestamp df));
           lo = bin_floor freq (origin_of df) first;
           hi = bin_floor freq (origin_of df) last
       in map (\<lambda>k. bin_row freq df (lo + int k * freq)) [0 ..< nat ((hi - lo) div freq) + 1])"

section \<open>The callback \<open>update_dashboard\<close> (lines 244-317)\<close>

text \<open>
  The dropdown of parameters hands over one key or a list of keys (lines 256-257).
\<close>

datatype selection = Single string | Multiple "string list"

fun as_list :: "selection \<Rightarrow> string list" where
  "as_list (Single param) = [param]"
| "as_list (Multiple params) = params"

text \<open>
  The exceptions of the callback: \<open>PARAMETERS[param]\<close> on a key that is not in the
  dictionary, and \<open>resample\<close> on a frequency that is not a positive width.
\<close>

datatype error = KeyError string | InvalidFrequency

record trace =
  trace_x :: "instant list"
  trace_y :: "cell list"
  trace_name :: string
  line_color :: string

text \<open>
  A figure is either what \<open>px.line()\<close> returns without data, or a \<open>go.Figure\<close> with
  the traces added to it. Its series data are the points of its traces.
\<close>

datatype figure = PxLine | GoFigure "trace list"

fun series_data :: "figure \<Rightarrow> (instant \<times> cell) list" where
  "series_data PxLine = []"
| "series_data (GoFigure traces) = concat (map (\<lambda>t. zip (trace_x t) (trace_y t)) traces)"

fun add_traces :: "frame \<Rightarrow> string list \<Rightarrow> trace list \<Rightarrow> error + trace list" where
  "add_traces df_agg [] traces = Inr traces"
| "add_traces df_agg (param # params) traces =
    (case map_of PARAMETERS param of
       None \<Rightarrow> Inl (KeyError param)
     | Some param_config \<Rightarrow>
         add_traces df_agg params
           (traces @
            [\<lparr>trace_x = map timestamp df_agg,
              trace_y = map (column param) df_agg,
              trace_name =
                (if unit param_config \<noteq> []
                 then name param_config @ '' ('' @ unit param_config @ '')''
                 else name param_config),
              line_color = color param_config\<rparr>]))"

subsection \<open>The format \<open>.2f\<close> of a float (line 312)\<close>

text \<open>
  Python prints the decimal number with two digits after the point that is nearest to
  the value, a tie going to the even digit, and keeps the sign of a negative value.
  NaN prints as \<open>nan\<close>.
\<close>

definition round_half_even :: "real \<Rightarrow> int" where
  "round_half_even v =
    (let n = \<lfloor>v\<rfloor>; d = v - of_int n in
     if d < 1 / 2 then n
     else if 1 / 2 < d then n + 1
     else if even n then n else n + 1)"

definition digit_char :: "nat \<Rightarrow> char" where
  "digit_char d = ''0123456789'' ! (d mod 10)"

fun digits :: "nat \<Rightarrow> string" where
  "digits n = (if n < 10 then [digit_char n] else digits (n div 10) @ [digit_char (n mod 10)])"

declare digits.simps [simp del]

definition format_2f :: "cell \<Rightarrow> string" where
  "format_2f c =
    (case c of
       None \<Rightarrow> ''nan''
     | Some v \<Rightarrow>
         (let n = nat (round_half_even (\<bar>v\<bar> * 100)) in
          (if v < 0 then ''-'' else []) @ digits (n div 100) @ ''.'' @
          [digit_char (n mod 100 div 10), digit_char (n mod 10)]))"

subsection \<open>The outputs\<close>

text \<open>
  The store of the page holds either the empty dictionary or the document that
  \<open>df_agg.to_json(date_format='iso', orient='split')\<close> writes. The writer belongs to
  pandas; the model takes it as the parameter \<open>to_json\<close> and keeps the type of documents
  open. The counter \<open>n_intervals\<close> of the timer is never read and is left out.
\<close>

datatype 'j store = EmptyDict | Stored 'j

record 'j outputs =
  fig :: figure
  table_data :: frame
  columns :: "(string \<times> string) list"
  stored_data :: "'j store"
  latest_values :: "string list"

definition update_dashboard ::
  "(frame \<Rightarrow> 'j) \<Rightarrow> selection \<Rightarrow> string \<Rightarrow> int \<Rightarrow> instant option \<Rightarrow> instant option \<Rightarrow>
   frame \<Rightarrow> error + 'j outputs" where
  "update_dashboard to_json selected_params time_range aggregation custom_start custom_end df =
    (if df = [] then
       Inr \<lparr>fig = PxLine, table_data = [], columns = [], stored_data = EmptyDict,
            latest_values = map (\<lambda>_. ''--'') PARAMETERS\<rparr>
     else if aggregation \<le> 0 then Inl InvalidFrequency
     else
       let df_agg = resample_mean aggregation
                      (df_filtered time_range custom_start custom_end df)
       in case add_traces df_agg (as_list selected_params) [] of
            Inl e \<Rightarrow> Inl e
          | Inr traces \<Rightarrow>
              Inr \<lparr>fig = GoFigure traces,
                   table_data = df_agg,
                   columns = map (\<lambda>i. (i, i)) (''timestamp'' # map fst PARAMETERS),
                   stored_data = Stored (to_json df_agg),
                   latest_values =
                     map (\<lambda>param. format_2f (column param (last df))) (map fst PARAMETERS)\<rparr>)"

section \<open>Vocabulary of the properties\<close>




text \<open>
  The durations the specification gives for the time ranges, in hours, by the label of
  the range; \<open>TIME_RANGES\<close> maps the value of the dropdown to the label.
\<close>

definition duration_by_label :: "(string \<times> int) list" where
  "duration_by_label =
    [(''1 Hour'', 1), (''6 Hours'', 6), (''12 Hours'', 12), (''1 Day'', 24), (''1 Week'', 168)]"

definition range_duration :: "string \<Rightarrow> int" where
  "range_duration time_range =
    (case map_of TIME_RANGES time_range of
       None \<Rightarrow> 6
     | Some label \<Rightarrow> (case map_of duration_by_label label of None \<Rightarrow> 6 | Some h \<Rightarrow> h))
    * ns_per_hour"




text \<open>The start of the first and of the last bucket of an aggregated frame.\<close>

definition first_bin :: "int \<Rightarrow> frame \<Rightarrow> instant" where
  "first_bin freq df = bin_floor freq (origin_of df) (Min (set (map timestamp df)))"

definition last_bin :: "int \<Rightarrow> frame \<Rightarrow> instant" where
  "last_bin freq df = bin_floor freq (origin_of df) (Max (set (map timestamp df)))"

text \<open>
  Two frames for the examples: the scenario of the specification, with readings at 09:00,
  09:05 and 09:15 of the first day, and a frame with a gap, with readings at 09:00 and
  09:25. Only the column \<open>pH\<close> has values.
\<close>

definition pH_reading :: "instant \<Rightarrow> cell \<Rightarrow> reading" where
  "pH_reading t v = \<lparr>timestamp = t, pH = v, TDS = None, Depth = None, FlowInd = None\<rparr>"

definition scenario_readings :: frame where
  "scenario_readings =
    [pH_reading 32400000000000 (Some 7), pH_reading 32700000000000 (Some (72 / 10)),
     pH_reading 33300000000000 (Some (68 / 10))]"

definition gap_readings :: frame where
  "gap_readings =
    [pH_reading 32400000000000 (Some 7), pH_reading 33900000000000 (Some (68 / 10))]"


section \<open>Bins partition the rows\<close>










lemma bin_floor_aligned: "(bin_floor freq origin t - origin) mod freq = 0"
proof -
  have "bin_floor freq origin t - origin = (t - origin) - (t - origin) mod freq"
    by (simp add: bin_floor_def)
  also have "\<dots> = freq * ((t - origin) div freq)"
    by (rule minus_mod_eq_mult_div)
  finally show ?thesis by simp
qed

lemma bin_floor_diff:
  "bin_floor freq origin b - bin_floor freq origin a
   = freq * ((b - bin_floor freq origin a) div freq)"
proof -
  define lo where "lo = bin_floor freq origin a"
  have lo: "(lo - origin) mod freq = 0"
    unfolding lo_def by (rule bin_floor_aligned)
  have "b - origin = (b - lo) + (lo - origin)" by simp
  then have "(b - origin) mod freq = ((b - lo) mod freq + (lo - origin) mod freq) mod freq"
    by (simp only: mod_add_eq)
  then have m: "(b - origin) mod freq = (b - lo) mod freq"
    by (simp only: lo add_0_right mod_mod_trivial)
  have "bin_floor freq origin b - lo = (b - lo) - (b - origin) mod freq"
    by (simp add: bin_floor_def [of freq origin b])
  also have "\<dots> = (b - lo) - (b - lo) mod freq"
    by (simp only: m)
  also have "\<dots> = freq * ((b - lo) div freq)"
    by (rule minus_mod_eq_mult_div)
  finally show ?thesis unfolding lo_def .
qed



section \<open>Shape of the aggregated frame\<close>

lemma timestamp_bin_row: "timestamp (bin_row freq df b) = b"
  by (simp add: bin_row_def Let_def)

lemma resample_mean_rows:
  assumes "df \<noteq> []"
  shows "resample_mean freq df =
    map (\<lambda>k. bin_row freq df (first_bin freq df + int k * freq))
      [0 ..< nat ((last_bin freq df - first_bin freq df) div freq) + 1]"
  using assms by (simp add: resample_mean_def Let_def first_bin_def last_bin_def)

lemma sorted_wrt_steps:
  fixes freq :: int
  assumes "0 < freq"
  shows "sorted_wrt (<) (map (\<lambda>k. lo + int k * freq) [0..<n])"
  using assms by (simp add: sorted_wrt_map sorted_wrt_iff_nth_less)

lemma map_timestamp_resample_mean:
  assumes "df \<noteq> []"
  shows "map timestamp (resample_mean freq df) =
    map (\<lambda>k. first_bin freq df + int k * freq)
      [0 ..< nat ((last_bin freq df - first_bin freq df) div freq) + 1]"
  unfolding resample_mean_rows [OF assms] by (simp add: comp_def timestamp_bin_row)

lemma AGGREGATIONS_widths:
  "\<forall>w \<in> snd ` set AGGREGATIONS. 0 < w \<and> w dvd ns_per_day"
  by (simp add: AGGREGATIONS_def ns_per_day_def ns_per_hour_def)

lemma normalize_aligned:
  assumes "freq dvd ns_per_day"
  shows "normalize t mod freq = 0"
proof -
  have "normalize t = ns_per_day * (t div ns_per_day)"
    unfolding normalize_def by (rule minus_mod_eq_mult_div)
  then show ?thesis using assms by simp
qed

lemma aligned_to_epoch:
  fixes b origin freq :: int
  assumes "(b - origin) mod freq = 0" and "origin mod freq = 0"
  shows "b mod freq = 0"
proof -
  have "b = (b - origin) + origin" by simp
  then have "b mod freq = ((b - origin) mod freq + origin mod freq) mod freq"
    by (simp only: mod_add_eq)
  then show ?thesis by (simp add: assms)
qed

lemma step_aligned:
  "(first_bin freq df + int k * freq - origin_of df) mod freq = 0"
proof -
  have "first_bin freq df + int k * freq - origin_of df
        = (first_bin freq df - origin_of df) + int k * freq" by simp
  then have "(first_bin freq df + int k * freq - origin_of df) mod freq
        = ((first_bin freq df - origin_of df) mod freq + (int k * freq) mod freq) mod freq"
    by (simp only: mod_add_eq)
  then show ?thesis
    by (simp add: first_bin_def bin_floor_aligned)
qed

lemma mean_Nil: "mean [] = None"
  by (simp add: mean_def)

lemma bin_row_empty:
  assumes "filter (in_bin freq b) df = []"
  shows "pH (bin_row freq df b) = None \<and> TDS (bin_row freq df b) = None \<and>
         Depth (bin_row freq df b) = None \<and> FlowInd (bin_row freq df b) = None"
  by (simp add: bin_row_def Let_def assms mean_Nil)

lemma in_bin_bin_floor:
  assumes "0 < freq"
  shows "bin_floor freq origin (timestamp r) \<le> timestamp r"
    and "timestamp r < bin_floor freq origin (timestamp r) + freq"
proof -
  have "0 \<le> (timestamp r - origin) mod freq" "(timestamp r - origin) mod freq < freq"
    using assms by simp_all
  then show "bin_floor freq origin (timestamp r) \<le> timestamp r"
    and "timestamp r < bin_floor freq origin (timestamp r) + freq"
    unfolding bin_floor_def by linarith+
qed

lemma nonempty_bin:
  assumes "r \<in> set df" and "in_bin freq b r"
  shows "filter (in_bin freq b) df \<noteq> []"
  using assms by (auto simp: filter_empty_conv)

lemma earliest_row:
  assumes "df \<noteq> []"
  obtains r where "r \<in> set df" and "timestamp r = Min (set (map timestamp df))"
proof -
  have "Min (set (map timestamp df)) \<in> set (map timestamp df)"
    using assms by (intro Min_in) simp_all
  then show ?thesis using that by auto
qed

lemma latest_row:
  assumes "df \<noteq> []"
  obtains r where "r \<in> set df" and "timestamp r = Max (set (map timestamp df))"
proof -
  have "Max (set (map timestamp df)) \<in> set (map timestamp df)"
    using assms by (intro Max_in) simp_all
  then show ?thesis using that by auto
qed

lemma empty_bucket_row:
  assumes "0 < freq"
    and "row \<in> set (resample_mean freq df)"
    and "filter (in_bin freq (timestamp row)) df = []"
  shows "pH row = None \<and> TDS row = None \<and> Depth row = None \<and> FlowInd row = None \<and>
         (\<exists>r \<in> set df. timestamp r < timestamp row) \<and>
         (\<exists>r \<in> set df. timestamp row + freq \<le> timestamp r)"
proof -
  have ne: "df \<noteq> []" using assms(2) by (auto simp: resample_mean_def)
  define lo where "lo = first_bin freq df"
  define q where "q = (last_bin freq df - lo) div freq"
  from assms(2) obtain k where k: "k < nat q + 1"
    and row: "row = bin_row freq df (lo + int k * freq)"
    unfolding resample_mean_rows [OF ne] set_map lo_def q_def
    by (auto simp del: upt_Suc)
  have ts: "timestamp row = lo + int k * freq"
    unfolding row by (rule timestamp_bin_row)
  have empty: "filter (in_bin freq (lo + int k * freq)) df = []"
    using assms(3) unfolding ts .
  have cells: "pH row = None \<and> TDS row = None \<and> Depth row = None \<and> FlowInd row = None"
    unfolding row by (rule bin_row_empty [OF empty])
  obtain rmin where rmin: "rmin \<in> set df" "timestamp rmin = Min (set (map timestamp df))"
    using earliest_row [OF ne] by blast
  obtain rmax where rmax: "rmax \<in> set df" "timestamp rmax = Max (set (map timestamp df))"
    using latest_row [OF ne] by blast
  have lo_eq: "lo = bin_floor freq (origin_of df) (timestamp rmin)"
    unfolding lo_def first_bin_def rmin(2) ..
  have hi_eq: "last_bin freq df = bin_floor freq (origin_of df) (timestamp rmax)"
    unfolding last_bin_def rmax(2) ..
  have lo_bin: "lo \<le> timestamp rmin" "timestamp rmin < lo + freq"
    unfolding lo_eq by (rule in_bin_bin_floor [OF assms(1)])+
  have hi_bin: "last_bin freq df \<le> timestamp rmax" "timestamp rmax < last_bin freq df + freq"
    unfolding hi_eq by (rule in_bin_bin_floor [OF assms(1)])+
  have hi_lo: "last_bin freq df = lo + freq * q"
  proof -
    have "last_bin freq df - lo = freq * ((timestamp rmax - lo) div freq)"
      unfolding hi_eq lo_eq by (rule bin_floor_diff)
    then have "q = (timestamp rmax - lo) div freq"
      unfolding q_def using assms(1) by simp
    with \<open>last_bin freq df - lo = freq * ((timestamp rmax - lo) div freq)\<close>
    show ?thesis by simp
  qed
  have "k \<noteq> 0"
  proof
    assume "k = 0"
    then have "in_bin freq (lo + int k * freq) rmin"
      using lo_bin by (simp add: in_bin_def)
    from nonempty_bin [OF rmin(1) this] empty show False by simp
  qed
  then have "freq \<le> int k * freq" using assms(1) by simp
  then have before: "timestamp rmin < timestamp row"
    unfolding ts using lo_bin(2) by linarith
  have "int k \<noteq> q"
  proof
    assume "int k = q"
    then have "lo + int k * freq = last_bin freq df"
      unfolding hi_lo by (simp add: mult.commute)
    then have "in_bin freq (lo + int k * freq) rmax"
      using hi_bin by (simp add: in_bin_def)
    from nonempty_bin [OF rmax(1) this] empty show False by simp
  qed
  moreover have "int k \<le> q" using k \<open>k \<noteq> 0\<close> by arith
  ultimately have "int k + 1 \<le> q" by simp
  then have "(int k + 1) * freq \<le> q * freq"
    using assms(1) by (intro mult_right_mono) simp_all
  then have "lo + int k * freq + freq \<le> last_bin freq df"
    unfolding hi_lo by (simp add: algebra_simps)
  then have after: "timestamp row + freq \<le> timestamp rmax"
    unfolding ts using hi_bin(1) by linarith
  from cells before after rmin(1) rmax(1) show ?thesis by blast
qed

section \<open>Properties of the aggregation\<close>



text \<open>
  C5 (bucket alignment and order). For every frame and every positive bucket width, the
  bucket starts of the aggregated frame are strictly ascending, so no bucket start occurs
  twice, and every bucket start is a whole number of bucket widths away from the anchor,
  which is midnight of the day of the earliest reading. For a width that divides the day,
  as the five widths of the dropdown do, every bucket start is a multiple of the width
  counted from the epoch.
\<close>

theorem bucket_starts_aligned_ascending:
  assumes "0 < freq"
  shows "sorted_wrt (<) (map timestamp (resample_mean freq df)) \<and>
         distinct (map timestamp (resample_mean freq df)) \<and>
         (\<forall>row \<in> set (resample_mean freq df).
            (timestamp row - origin_of df) mod freq = 0 \<and>
            (freq dvd ns_per_day \<longrightarrow> timestamp row mod freq = 0))"
proof (cases "df = []")
  case True
  then show ?thesis by (simp add: resample_mean_def)
next
  case False
  have s: "sorted_wrt (<) (map timestamp (resample_mean freq df))"
    unfolding map_timestamp_resample_mean [OF False] by (rule sorted_wrt_steps [OF assms])
  then have d: "distinct (map timestamp (resample_mean freq df))"
    by (simp add: strict_sorted_iff)
  have a: "(timestamp row - origin_of df) mod freq = 0 \<and>
           (freq dvd ns_per_day \<longrightarrow> timestamp row mod freq = 0)"
    if "row \<in> set (resample_mean freq df)" for row
  proof -
    from that obtain k where row: "row = bin_row freq df (first_bin freq df + int k * freq)"
      unfolding resample_mean_rows [OF False] set_map by blast
    have al: "(timestamp row - origin_of df) mod freq = 0"
      unfolding row timestamp_bin_row by (rule step_aligned)
    have "timestamp row mod freq = 0" if "freq dvd ns_per_day"
      using al normalize_aligned [OF that] unfolding origin_of_def
      by (rule aligned_to_epoch)
    with al show ?thesis by simp
  qed
  from s d a show ?thesis by blast
qed

theorem bucket_starts_witness:
  "(0::int) < 600000000000 \<and> (600000000000::int) dvd ns_per_day \<and>
   map timestamp (resample_mean 600000000000 scenario_readings)
     = [32400000000000, 33000000000000] \<and>
   sorted_wrt (<) (map timestamp (resample_mean 600000000000 scenario_readings)) \<and>
   map (\<lambda>row. timestamp row mod 600000000000) (resample_mean 600000000000 scenario_readings)
     = [0, 0]"
proof -
  have rows: "map timestamp (resample_mean 600000000000 scenario_readings)
      = [32400000000000, 33000000000000]"
    unfolding scenario_readings_def pH_reading_def by code_simp
  have d: "(600000000000::int) dvd ns_per_day"
    by (simp add: ns_per_day_def ns_per_hour_def)
  have c: "(0::int) < 600000000000" by simp
  have "map (\<lambda>row. timestamp row mod 600000000000) (resample_mean 600000000000 scenario_readings)
      = map (\<lambda>t. t mod 600000000000) (map timestamp (resample_mean 600000000000 scenario_readings))"
    by (simp add: comp_def)
  with bucket_starts_aligned_ascending [OF c, of scenario_readings] d rows
  show ?thesis by simp
qed

text \<open>
  C2, as the code has it. For a frame with readings, the aggregated frame has one row for
  every bucket from the bucket of the earliest reading to the bucket of the latest
  reading, the buckets without readings in between included. All four means of a row
  whose bucket holds no reading are missing, none is zero, and such a bucket lies after
  one reading and before another. No bucket before the earliest reading or after the
  latest reading contributes a row.
\<close>

theorem empty_bucket_rows_missing_inside_span:
  assumes "0 < freq" and "df \<noteq> []"
  shows "map timestamp (resample_mean freq df) =
           map (\<lambda>k. first_bin freq df + int k * freq)
             [0 ..< nat ((last_bin freq df - first_bin freq df) div freq) + 1] \<and>
         (\<forall>row \<in> set (resample_mean freq df).
            filter (in_bin freq (timestamp row)) df = [] \<longrightarrow>
            pH row = None \<and> TDS row = None \<and> Depth row = None \<and> FlowInd row = None \<and>
            (\<exists>r \<in> set df. timestamp r < timestamp row) \<and>
            (\<exists>r \<in> set df. timestamp row + freq \<le> timestamp r))"
  using map_timestamp_resample_mean [OF assms(2)] empty_bucket_row [OF assms(1)]
  by blast

theorem empty_bucket_row_witness:
  "(0::int) < 600000000000 \<and> gap_readings \<noteq> [] \<and>
   pH_reading 33000000000000 None \<in> set (resample_mean 600000000000 gap_readings) \<and>
   filter (in_bin 600000000000 (timestamp (pH_reading 33000000000000 None))) gap_readings = [] \<and>
   map timestamp (resample_mean 600000000000 gap_readings) =
     [32400000000000, 33000000000000, 33600000000000] \<and>
   pH (pH_reading 33000000000000 None) = None"
proof -
  have rows: "resample_mean 600000000000 gap_readings =
     [pH_reading 32400000000000 (Some 7), pH_reading 33000000000000 None,
      pH_reading 33600000000000 (Some (68 / 10))]"
    unfolding gap_readings_def pH_reading_def by code_simp
  have a: "pH_reading 33000000000000 None \<in> set (resample_mean 600000000000 gap_readings)"
    unfolding rows by simp
  have b: "filter (in_bin 600000000000 (timestamp (pH_reading 33000000000000 None))) gap_readings = []"
    by (simp add: gap_readings_def pH_reading_def in_bin_def)
  have c: "(0::int) < 600000000000" by simp
  have d: "gap_readings \<noteq> []" by (simp add: gap_readings_def)
  have t: "map timestamp (resample_mean 600000000000 gap_readings) =
     [32400000000000, 33000000000000, 33600000000000]"
    unfolding rows by (simp add: pH_reading_def)
  from empty_bucket_rows_missing_inside_span [OF c d] a b c d t
  show ?thesis by (simp add: pH_reading_def)
qed

text \<open>
  C2 as stated fails: with readings at 09:00 and 09:25 and buckets of ten minutes, the
  aggregated frame has a row for the bucket starting at 09:10, which holds no reading.
\<close>

theorem empty_bucket_counterexample:
  "resample_mean 600000000000 gap_readings =
     [pH_reading 32400000000000 (Some 7), pH_reading 33000000000000 None,
      pH_reading 33600000000000 (Some (68 / 10))] \<and>
   filter (in_bin 600000000000 33000000000000) gap_readings = []"
  unfolding gap_readings_def pH_reading_def by code_simp

section \<open>The callback returns\<close>


lemma add_traces_Inr:
  assumes "set params \<subseteq> set (map fst PARAMETERS)"
  shows "\<exists>traces. add_traces df_agg params acc = Inr traces"
  using assms
proof (induction params arbitrary: acc)
  case Nil
  show ?case by simp
next
  case (Cons param params)
  then have "param \<in> fst ` set PARAMETERS" by simp
  then obtain cfg where "map_of PARAMETERS param = Some cfg"
    by (metis map_of_eq_None_iff not_Some_eq)
  with Cons show ?case by simp
qed

lemma update_dashboard_Inr:
  assumes "df \<noteq> []" and "0 < aggregation"
    and "set (as_list selected_params) \<subseteq> set (map fst PARAMETERS)"
  shows "\<exists>traces.
    update_dashboard to_json selected_params time_range aggregation custom_start custom_end df =
      Inr \<lparr>fig = GoFigure traces,
           table_data = resample_mean aggregation
                          (df_filtered time_range custom_start custom_end df),
           columns = map (\<lambda>i. (i, i)) (''timestamp'' # map fst PARAMETERS),
           stored_data = Stored (to_json (resample_mean aggregation
                          (df_filtered time_range custom_start custom_end df))),
           latest_values =
             map (\<lambda>param. format_2f (column param (last df))) (map fst PARAMETERS)\<rparr>"
proof -
  obtain traces where
    "add_traces (resample_mean aggregation (df_filtered time_range custom_start custom_end df))
       (as_list selected_params) [] = Inr traces"
    using add_traces_Inr [OF assms(3)] by blast
  then show ?thesis
    using assms(1,2) by (simp add: update_dashboard_def Let_def)
qed

lemma hours_delta_range_duration:
  "(case map_of hours_delta time_range of None \<Rightarrow> 6 | Some h \<Rightarrow> h) * ns_per_hour
   = range_duration time_range"
  by (simp add: hours_delta_def range_duration_def TIME_RANGES_def duration_by_label_def)

lemma resample_mean_not_Nil: "df \<noteq> [] \<Longrightarrow> resample_mean freq df \<noteq> []"
  by (simp add: resample_mean_def Let_def)

lemma Max_timestamp_in:
  assumes "df \<noteq> []"
  shows "Max (set (map timestamp df)) \<in> set (map timestamp df)"
  using assms by (intro Max_in) simp_all


section \<open>The format of the latest values\<close>








lemma valid_single_pH: "set (as_list (Single ''pH'')) \<subseteq> set (map fst PARAMETERS)"
  by (simp add: PARAMETERS_def)

lemma Max_scenario: "Max (timestamp ` set scenario_readings) = 33300000000000"
  by (simp add: scenario_readings_def pH_reading_def)


section \<open>Properties of the pipeline\<close>

text \<open>
  C6 (empty data set). When the frame of the day is empty, the callback returns before
  it looks at the time range, the bounds, the bucket width or the selected parameters:
  the figure has no series data, the table has no rows and no columns, the store gets the
  empty dictionary, and each of the four summary values is the placeholder \<open>--\<close>.
\<close>

theorem empty_frame_short_circuit:
  "update_dashboard to_json selected_params time_range aggregation custom_start custom_end [] =
     Inr \<lparr>fig = PxLine, table_data = [], columns = [], stored_data = EmptyDict,
          latest_values = [''--'', ''--'', ''--'', ''--'']\<rparr> \<and>
   series_data PxLine = []"
  by (simp add: update_dashboard_def PARAMETERS_def)

text \<open>
  C4 (named time ranges). For a frame with readings and a time range other than
  \<open>Custom\<close>, the window ends at the greatest timestamp of the frame and starts the
  duration of the range before it. The duration is the one the table of the specification
  gives for the label of the range (1 Hour, 6 Hours, 12 Hours, 1 Day, 1 Week: 1, 6, 12, 24
  and 168 hours), and six hours for any other value. A reading is in the window exactly
  when its timestamp lies between start and end, both included.
\<close>

theorem window_bounds_named_range:
  assumes "df \<noteq> []" and "time_range \<noteq> ''Custom''"
  shows "window_bounds time_range custom_start custom_end df =
           (Max (set (map timestamp df)) - range_duration time_range,
            Max (set (map timestamp df))) \<and>
         Max (set (map timestamp df)) \<in> set (map timestamp df) \<and>
         (\<forall>r \<in> set df. timestamp r \<le> Max (set (map timestamp df))) \<and>
         range_duration time_range =
           (if time_range = ''1H'' then 1
            else if time_range = ''6H'' then 6
            else if time_range = ''12H'' then 12
            else if time_range = ''1D'' then 24
            else if time_range = ''1W'' then 168
            else 6) * ns_per_hour \<and>
         (\<forall>r. r \<in> set (df_filtered time_range custom_start custom_end df) \<longleftrightarrow>
            r \<in> set df \<and>
            Max (set (map timestamp df)) - range_duration time_range \<le> timestamp r \<and>
            timestamp r \<le> Max (set (map timestamp df)))"
proof -
  have w: "window_bounds time_range custom_start custom_end df =
           (Max (set (map timestamp df)) - range_duration time_range,
            Max (set (map timestamp df)))"
    using assms(2) by (simp add: window_bounds_def Let_def hours_delta_range_duration)
  have d: "range_duration time_range =
           (if time_range = ''1H'' then 1
            else if time_range = ''6H'' then 6
            else if time_range = ''12H'' then 12
            else if time_range = ''1D'' then 24
            else if time_range = ''1W'' then 168
            else 6) * ns_per_hour"
    by (simp add: range_duration_def TIME_RANGES_def duration_by_label_def)
  have f: "r \<in> set (df_filtered time_range custom_start custom_end df) \<longleftrightarrow>
            r \<in> set df \<and>
            Max (set (map timestamp df)) - range_duration time_range \<le> timestamp r \<and>
            timestamp r \<le> Max (set (map timestamp df))" for r
    unfolding df_filtered_def w by (simp add: between_def)
  have m: "\<forall>r \<in> set df. timestamp r \<le> Max (set (map timestamp df))" by simp
  from w d f m Max_timestamp_in [OF assms(1)] show ?thesis by blast
qed

theorem window_bounds_named_range_witness:
  "scenario_readings \<noteq> [] \<and> ''1W'' \<noteq> ''Custom'' \<and>
   window_bounds ''1W'' None None scenario_readings = (- 571500000000000, 33300000000000) \<and>
   range_duration ''1W'' = 168 * ns_per_hour"
proof -
  have a: "scenario_readings \<noteq> []" by (simp add: scenario_readings_def)
  have b: "''1W'' \<noteq> ''Custom''" by simp
  from window_bounds_named_range [OF a b, of None None] a b
  show ?thesis by (simp add: Max_scenario ns_per_hour_def)
qed

text \<open>
  C7 (custom range). With \<open>Custom\<close> and both bounds given, the window is the pair of
  the bounds as given; nothing compares them. When the start is later than the end, no
  reading passes the filter, the aggregation has no rows, and the callback returns its
  outputs. The selected parameters are keys of \<open>PARAMETERS\<close> and the bucket width is
  positive, as the dropdowns have them.
\<close>

theorem custom_range_verbatim:
  assumes "set (as_list selected_params) \<subseteq> set (map fst PARAMETERS)" and "0 < aggregation"
  shows "window_bounds ''Custom'' (Some cs) (Some ce) df = (cs, ce) \<and>
         (ce < cs \<longrightarrow>
            df_filtered ''Custom'' (Some cs) (Some ce) df = [] \<and>
            (\<exists>out. update_dashboard to_json selected_params ''Custom'' aggregation
                     (Some cs) (Some ce) df = Inr out \<and>
                   table_data out = []))"
proof -
  have w: "window_bounds ''Custom'' (Some cs) (Some ce) df = (cs, ce)"
    by (simp add: window_bounds_def Let_def)
  have rest: "df_filtered ''Custom'' (Some cs) (Some ce) df = [] \<and>
            (\<exists>out. update_dashboard to_json selected_params ''Custom'' aggregation
                     (Some cs) (Some ce) df = Inr out \<and>
                   table_data out = [])" if lt: "ce < cs"
  proof -
    have e: "df_filtered ''Custom'' (Some cs) (Some ce) df = []"
      unfolding df_filtered_def w using lt by (auto simp: between_def filter_empty_conv)
    show ?thesis
    proof (cases "df = []")
      case True
      then show ?thesis using e by (simp add: update_dashboard_def)
    next
      case False
      from update_dashboard_Inr [OF False assms(2) assms(1),
          of to_json "''Custom''" "Some cs" "Some ce"]
      show ?thesis using e by (auto simp: resample_mean_def)
    qed
  qed
  from w rest show ?thesis by blast
qed

theorem custom_range_verbatim_witness:
  "set (as_list (Single ''pH'')) \<subseteq> set (map fst PARAMETERS) \<and> (0::int) < 600000000000 \<and>
   (5::int) < 10 \<and>
   window_bounds ''Custom'' (Some 10) (Some 5) scenario_readings = (10, 5) \<and>
   df_filtered ''Custom'' (Some 10) (Some 5) scenario_readings = [] \<and>
   map_sum id table_data
     (update_dashboard (\<lambda>d. d) (Single ''pH'') ''Custom'' 600000000000 (Some 10) (Some 5)
        scenario_readings) = Inr []"
proof -
  have c: "(0::int) < 600000000000" by simp
  from custom_range_verbatim [OF valid_single_pH c, of 10 5 scenario_readings "\<lambda>d. d"]
    valid_single_pH
  show ?thesis by auto
qed

text \<open>
  C3, as the code has it. With \<open>Custom\<close> and a bound missing, the guard of line 261
  fails and the callback takes the default window: the six hours up to the greatest
  timestamp. With at least one reading the window holds the latest reading, so neither
  the windowed frame nor the aggregation is empty. The callback returns its outputs.
\<close>

theorem custom_missing_bound_default_window:
  assumes "df \<noteq> []" and "custom_start = None \<or> custom_end = None"
    and "set (as_list selected_params) \<subseteq> set (map fst PARAMETERS)" and "0 < aggregation"
  shows "window_bounds ''Custom'' custom_start custom_end df =
           (Max (set (map timestamp df)) - 6 * ns_per_hour, Max (set (map timestamp df))) \<and>
         df_filtered ''Custom'' custom_start custom_end df \<noteq> [] \<and>
         (\<exists>out. update_dashboard to_json selected_params ''Custom'' aggregation
                  custom_start custom_end df = Inr out \<and>
                table_data out \<noteq> [])"
proof -
  have w: "window_bounds ''Custom'' custom_start custom_end df =
           (Max (set (map timestamp df)) - 6 * ns_per_hour, Max (set (map timestamp df)))"
    using assms(2) by (auto simp: window_bounds_def Let_def hours_delta_def)
  obtain r where r: "r \<in> set df" "timestamp r = Max (set (map timestamp df))"
    using latest_row [OF assms(1)] by blast
  have "between (Max (set (map timestamp df)) - 6 * ns_per_hour) (Max (set (map timestamp df))) r"
    unfolding between_def r(2) by (simp add: ns_per_hour_def)
  with r(1) have ne: "df_filtered ''Custom'' custom_start custom_end df \<noteq> []"
    unfolding df_filtered_def w by (auto simp: filter_empty_conv)
  from update_dashboard_Inr [OF assms(1) assms(4) assms(3),
      of to_json "''Custom''" custom_start custom_end]
  have "\<exists>out. update_dashboard to_json selected_params ''Custom'' aggregation
                  custom_start custom_end df = Inr out \<and>
                table_data out \<noteq> []"
    using resample_mean_not_Nil [OF ne, of aggregation] by auto
  with w ne show ?thesis by blast
qed

theorem custom_missing_bound_witness:
  "scenario_readings \<noteq> [] \<and> ((None :: instant option) = None \<or> Some (0::int) = None) \<and>
   set (as_list (Single ''pH'')) \<subseteq> set (map fst PARAMETERS) \<and> (0::int) < 600000000000 \<and>
   window_bounds ''Custom'' None (Some 0) scenario_readings =
     (11700000000000, 33300000000000) \<and>
   df_filtered ''Custom'' None (Some 0) scenario_readings \<noteq> []"
proof -
  have a: "scenario_readings \<noteq> []" by (simp add: scenario_readings_def)
  have b: "(None :: instant option) = None \<or> Some (0::int) = None" by simp
  have c: "(0::int) < 600000000000" by simp
  from custom_missing_bound_default_window [OF a b valid_single_pH c, of "\<lambda>d. d"]
    a valid_single_pH
  show ?thesis by (simp add: Max_scenario ns_per_hour_def)
qed

text \<open>
  C3 as stated fails: with \<open>Custom\<close>, no start and an end at the epoch, every reading
  of the scenario is in the window and the table has two rows.
\<close>

theorem custom_missing_bound_counterexample:
  "df_filtered ''Custom'' None (Some 0) scenario_readings = scenario_readings \<and>
   map_sum id table_data
     (update_dashboard (\<lambda>d. d) (Single ''pH'') ''Custom'' 600000000000 None (Some 0)
        scenario_readings) =
     Inr [pH_reading 32400000000000 (Some (71 / 10)), pH_reading 33000000000000 (Some (68 / 10))]"
proof -
  have f: "df_filtered ''Custom'' None (Some 0) scenario_readings = scenario_readings"
    by (simp add: df_filtered_def window_bounds_def Let_def hours_delta_def
        ns_per_hour_def scenario_readings_def pH_reading_def between_def)
  have r: "resample_mean 600000000000 scenario_readings =
      [pH_reading 32400000000000 (Some (71 / 10)), pH_reading 33000000000000 (Some (68 / 10))]"
    unfolding scenario_readings_def pH_reading_def by code_simp
  have a: "scenario_readings \<noteq> []" by (simp add: scenario_readings_def)
  have c: "(0::int) < 600000000000" by simp
  from update_dashboard_Inr [OF a c valid_single_pH, of "\<lambda>d. d" "''Custom''" None "Some 0"]
  show ?thesis unfolding f r using f by auto
qed






end
